theory Spec2Isabelle
  imports Main
begin

section \<open>Requests, claim-sets and middleware outcomes\<close>

text \<open>
  The payload that \<^verbatim>\<open>generateToken\<close> hands to \<^verbatim>\<open>jwt.sign\<close>:
  \<^verbatim>\<open>{ id: user._id, email: user.email, role: user.role, status: user.status }\<close>.
  The field \<^verbatim>\<open>id\<close> is called \<open>uid\<close> here. The library adds the issue and expiry
  times, \<^verbatim>\<open>iat\<close> and \<^verbatim>\<open>exp\<close>, in seconds; a decoded token is the payload with both.
\<close>

record payload =
  uid :: string
  email :: string
  role :: string
  status :: string

record claims = payload +
  iat :: int
  exp :: int

text \<open>A JSON value, as \<^verbatim>\<open>express.json()\<close> parses a request body; an object keeps its
  keys in order.\<close>

datatype json =
  JNull | JBool bool | JNum int | JStr string | JArr "json list" | JObj "(string \<times> json) list"

text \<open>
  The part of the Express request the code reads: the \<^verbatim>\<open>authorization\<close> header
  (absent or a string), \<^verbatim>\<open>req.user\<close> (unset or a decoded payload), the route
  parameters, \<^verbatim>\<open>req.ip\<close> and the parsed body, an object.
\<close>

record req =
  authorization :: "string option"
  user :: "claims option"
  params :: "string \<rightharpoonup> string"
  ip :: string
  body :: "(string \<times> json) list"

text \<open>The JSON body of a rejection; optional keys are \<open>None\<close> when the source omits them.\<close>

record res_body =
  success :: bool
  message :: string
  requiredRoles :: "string list option"
  userRole :: "string option"
  userStatus :: "string option"
  retryAfter :: "int option"

definition failure :: "string \<Rightarrow> res_body" where
  "failure m = \<lparr>success = False, message = m, requiredRoles = None, userRole = None,
     userStatus = None, retryAfter = None\<rparr>"

text \<open>
  A middleware either answers (\<^verbatim>\<open>res.status(c).json(b)\<close>) or calls \<^verbatim>\<open>next()\<close>,
  handing on the request as it left it.
\<close>

datatype outcome = Respond nat res_body | Next req

fun calls_next :: "outcome \<Rightarrow> bool" where
  "calls_next (Next _) = True"
| "calls_next (Respond _ _) = False"

section \<open>Token codec\<close>

text \<open>
  \<^verbatim>\<open>jwt.verify(token, secret)\<close> belongs to the jsonwebtoken library: it returns the payload
  or throws. The errors named here are its \<^verbatim>\<open>JsonWebTokenError\<close> with message
  \<^verbatim>\<open>jwt malformed\<close> or \<^verbatim>\<open>invalid signature\<close>, and its \<^verbatim>\<open>TokenExpiredError\<close>.
  The library is a parameter of the model: a function from token and secret to an error
  or a payload.
\<close>

datatype jwt_error = JwtMalformed | InvalidSignature | TokenExpired

type_synonym jwt_verify = "string \<Rightarrow> string \<Rightarrow> jwt_error + claims"

text \<open>\<^verbatim>\<open>try { return jwt.verify(token, JWT_SECRET) } catch (error) { return null }\<close>\<close>

definition verifyToken :: "jwt_verify \<Rightarrow> string \<Rightarrow> string \<Rightarrow> claims option" where
  "verifyToken jwt secret token =
     (case jwt token secret of Inl error \<Rightarrow> None | Inr decoded \<Rightarrow> Some decoded)"

text \<open>
  \<^verbatim>\<open>extractToken\<close>: \<^verbatim>\<open>!authHeader\<close> holds for an absent header and for the empty
  string; \<^verbatim>\<open>startsWith("Bearer ")\<close> then \<^verbatim>\<open>substring(7)\<close>; otherwise the header itself.
\<close>

definition extractToken :: "req \<Rightarrow> string option" where
  "extractToken r =
     (case authorization r of
        None \<Rightarrow> None
      | Some authHeader \<Rightarrow>
          if authHeader = [] then None
          else if take 7 authHeader = ''Bearer '' then Some (drop 7 authHeader)
          else Some authHeader)"

section \<open>Gate: authenticate and optionalAuth\<close>

text \<open>
  \<^verbatim>\<open>AuthMiddleware.authenticate\<close>. \<^verbatim>\<open>!token\<close> holds for \<^verbatim>\<open>null\<close> and for the empty
  string. The payload of a verified token is an object, so \<^verbatim>\<open>!decoded\<close> holds for
  \<^verbatim>\<open>null\<close> only. Nothing in the \<^verbatim>\<open>try\<close> block throws once \<^verbatim>\<open>verifyToken\<close> has
  caught the library's errors, so the 500 branch has no input that reaches it.
\<close>

definition authenticate :: "jwt_verify \<Rightarrow> string \<Rightarrow> req \<Rightarrow> outcome" where
  "authenticate jwt secret r =
     (case extractToken r of
        None \<Rightarrow> Respond 401 (failure ''Access denied. No token provided.'')
      | Some token \<Rightarrow>
          if token = [] then Respond 401 (failure ''Access denied. No token provided.'')
          else
            (case verifyToken jwt secret token of
               None \<Rightarrow> Respond 401 (failure ''Invalid or expired token.'')
             | Some decoded \<Rightarrow>
                 if status decoded = ''deleted''
                 then Respond 401 (failure ''Account has been deactivated.'')
                 else Next (r\<lparr>user := Some decoded\<rparr>)))"

text \<open>\<^verbatim>\<open>AuthMiddleware.optionalAuth\<close>: always \<^verbatim>\<open>next()\<close>; \<^verbatim>\<open>req.user\<close> is set only
  for a verified payload whose status is not \<^verbatim>\<open>deleted\<close>.\<close>

definition optionalAuth :: "jwt_verify \<Rightarrow> string \<Rightarrow> req \<Rightarrow> outcome" where
  "optionalAuth jwt secret r =
     (case extractToken r of
        None \<Rightarrow> Next r
      | Some token \<Rightarrow>
          if token = [] then Next r
          else
            (case verifyToken jwt secret token of
               None \<Rightarrow> Next r
             | Some decoded \<Rightarrow>
                 if status decoded \<noteq> ''deleted'' then Next (r\<lparr>user := Some decoded\<rparr>)
                 else Next r))"

section \<open>Authorization policy\<close>

text \<open>\<^verbatim>\<open>AuthMiddleware.authorize(allowedRoles)\<close>: membership of the role in an allow-list.\<close>

definition authorize :: "string list \<Rightarrow> req \<Rightarrow> outcome" where
  "authorize allowedRoles r =
     (case user r of
        None \<Rightarrow> Respond 401 (failure ''Authentication required.'')
      | Some u \<Rightarrow>
          if allowedRoles = [] then Next r
          else if role u \<notin> set allowedRoles
          then Respond 403 ((failure ''Access denied. Insufficient permissions.'')
                 \<lparr>requiredRoles := Some allowedRoles, userRole := Some (role u)\<rparr>)
          else Next r)"

definition adminOnly :: "req \<Rightarrow> outcome" where
  "adminOnly = authorize [''admin'']"

definition moderatorAndAbove :: "req \<Rightarrow> outcome" where
  "moderatorAndAbove = authorize [''admin'', ''moderator'']"

definition coordinatorAndAbove :: "req \<Rightarrow> outcome" where
  "coordinatorAndAbove = authorize [''admin'', ''moderator'', ''coordinator'']"

text \<open>
  The role floors of the specification are the three allow-list middlewares above:
  floor \<open>r\<close> is "role \<open>r\<close> and above".
\<close>

datatype floor = CoordinatorFloor | ModeratorFloor | AdminFloor

fun RequireRoleFloor :: "floor \<Rightarrow> req \<Rightarrow> outcome" where
  "RequireRoleFloor CoordinatorFloor = coordinatorAndAbove"
| "RequireRoleFloor ModeratorFloor = moderatorAndAbove"
| "RequireRoleFloor AdminFloor = adminOnly"

text \<open>
  \<^verbatim>\<open>AuthMiddleware.selfOrAdmin(userIdParam)\<close>. \<^verbatim>\<open>req.params[userIdParam]\<close> is
  \<^verbatim>\<open>undefined\<close> for a route without that parameter; \<^verbatim>\<open>===\<close> then compares it with the
  string \<^verbatim>\<open>req.user.id\<close>.
\<close>

definition selfOrAdmin :: "string \<Rightarrow> req \<Rightarrow> outcome" where
  "selfOrAdmin userIdParam r =
     (case user r of
        None \<Rightarrow> Respond 401 (failure ''Authentication required.'')
      | Some u \<Rightarrow>
          (let targetUserId = params r userIdParam;
               currentUserId = uid u;
               userRole = role u
           in if userRole = ''admin'' then Next r
              else if targetUserId = Some currentUserId then Next r
              else Respond 403 (failure ''Access denied. You can only access your own data.'')))"

text \<open>
  The specification's reading of the same check, with the floor as a parameter:
  allow iff the subject is the target or \<open>RequireRoleFloor\<close> with that floor allows.
\<close>

definition RequireSelfOrRoleFloor_spec :: "floor \<Rightarrow> string \<Rightarrow> req \<Rightarrow> bool" where
  "RequireSelfOrRoleFloor_spec fl userIdParam r =
     (case user r of
        None \<Rightarrow> False
      | Some u \<Rightarrow> params r userIdParam = Some (uid u) \<or> calls_next (RequireRoleFloor fl r))"

section \<open>Request throttle\<close>

text \<open>
  \<^verbatim>\<open>rateLimit(maxRequests, windowMs)\<close> closes over \<^verbatim>\<open>const requests = new Map()\<close>; the
  model passes the map in and returns it updated. Timestamps are \<^verbatim>\<open>Date.now()\<close>
  milliseconds, integers.
\<close>

type_synonym throttle_store = "string \<rightharpoonup> int list"

text \<open>\<^verbatim>\<open>Math.ceil(a / b)\<close> on integers, \<open>b > 0\<close>.\<close>

definition Math_ceil_div :: "int \<Rightarrow> int \<Rightarrow> int" where
  "Math_ceil_div a b = - ((- a) div b)"

text \<open>
  The statements of the \<^verbatim>\<open>try\<close> block where an exception can be raised. Which of them
  raise is a parameter \<open>raises\<close>; the error itself is only logged by the \<^verbatim>\<open>catch\<close>.
\<close>

datatype fault_point = AtIdentify | AtClean | AtRespond | AtRecord | AtNext

text \<open>What the \<^verbatim>\<open>try\<close> block did: it threw, or it completed with an outcome; in both
  cases the map holds the writes made so far.\<close>

datatype attempt = Thrown throttle_store | Returned outcome throttle_store

definition rateLimit_try ::
  "int \<Rightarrow> int \<Rightarrow> (fault_point \<Rightarrow> bool) \<Rightarrow> throttle_store \<Rightarrow> req \<Rightarrow> int \<Rightarrow> attempt" where
  "rateLimit_try maxRequests windowMs raises requests r now =
     (if raises AtIdentify then Thrown requests
      else
        let identifier = (case user r of Some u \<Rightarrow> uid u | None \<Rightarrow> ip r);
            windowStart = now - windowMs
        in if raises AtClean then Thrown requests
           else
             let requests1 =
                   (case requests identifier of
                      Some userRequests \<Rightarrow>
                        requests(identifier \<mapsto> filter (\<lambda>time. time > windowStart) userRequests)
                    | None \<Rightarrow> requests);
                 currentRequests = (case requests1 identifier of Some xs \<Rightarrow> xs | None \<Rightarrow> [])
             in if int (length currentRequests) \<ge> maxRequests then
                  (if raises AtRespond then Thrown requests1
                   else Returned
                     (Respond 429 ((failure ''Too many requests. Please try again later.'')
                        \<lparr>retryAfter := Some (Math_ceil_div windowMs 1000)\<rparr>))
                     requests1)
                else if raises AtRecord then Thrown requests1
                else
                  let requests2 = requests1(identifier \<mapsto> currentRequests @ [now])
                  in if raises AtNext then Thrown requests2
                     else Returned (Next r) requests2)"

text \<open>The middleware: the \<^verbatim>\<open>catch\<close> branch logs and calls \<^verbatim>\<open>next()\<close>.\<close>

definition rateLimit ::
  "int \<Rightarrow> int \<Rightarrow> (fault_point \<Rightarrow> bool) \<Rightarrow> throttle_store \<Rightarrow> req \<Rightarrow> int
     \<Rightarrow> outcome \<times> throttle_store" where
  "rateLimit maxRequests windowMs raises requests r now =
     (case rateLimit_try maxRequests windowMs raises requests r now of
        Thrown requests' \<Rightarrow> (Next r, requests')
      | Returned out requests' \<Rightarrow> (out, requests'))"

definition no_fault :: "fault_point \<Rightarrow> bool" where
  "no_fault p = False"

text \<open>A run of calls from one client at the given times, oldest first: the decisions.\<close>

fun rateLimit_run ::
  "int \<Rightarrow> int \<Rightarrow> throttle_store \<Rightarrow> req \<Rightarrow> int list \<Rightarrow> bool list" where
  "rateLimit_run maxRequests windowMs requests r [] = []"
| "rateLimit_run maxRequests windowMs requests r (now # later) =
     (case rateLimit maxRequests windowMs no_fault requests r now of
        (out, requests') \<Rightarrow>
          calls_next out # rateLimit_run maxRequests windowMs requests' r later)"

text \<open>
  The specification's Admit on one subject's sequence, in its words: drop entries with
  \<open>timestamp < now - window\<close>; if the remaining count reaches the ceiling, deny with
  \<open>retry-after = window - (now - oldest-remaining-entry)\<close>; else append \<open>now\<close> and allow.
\<close>

datatype admission = Allow | Deny "int option"

definition Admit_spec :: "int \<Rightarrow> int \<Rightarrow> int list \<Rightarrow> int \<Rightarrow> admission \<times> int list" where
  "Admit_spec ceiling window entries now =
     (let remaining = filter (\<lambda>timestamp. \<not> timestamp < now - window) entries
      in if int (length remaining) \<ge> ceiling
         then (Deny (case remaining of
                       [] \<Rightarrow> None
                     | oldest # _ \<Rightarrow> Some (window - (now - oldest))),
               remaining)
         else (Allow, remaining @ [now]))"

section \<open>The document store\<close>

text \<open>
  The \<^verbatim>\<open>User\<close> schema: \<^verbatim>\<open>_id\<close>, email, phone, name, password, role, status. A user
  without the password is what \<^verbatim>\<open>delete userResponse.password\<close> and
  \<^verbatim>\<open>.select('-password')\<close> leave.
\<close>

record user_response =
  user_id :: string
  user_email :: string
  user_phone :: string
  user_name :: string
  user_role :: string
  user_status :: string

record user = user_response +
  user_password :: string

definition toResponse :: "user \<Rightarrow> user_response" where
  "toResponse u = user_response.truncate u"

text \<open>The \<^verbatim>\<open>Log\<close> schema; \<^verbatim>\<open>loggedOutAt\<close> is absent until logout.\<close>

record log =
  log_id :: string
  loginId :: string
  log_email :: string
  loggedInAt :: int
  log_ip :: string
  os :: "string option"
  browser :: "string option"
  loggedOutAt :: "int option"

text \<open>
  The external store: the two collections in insertion order, and a fault: when
  \<open>db_error\<close> is \<open>Some m\<close> every query rejects with an error whose message is \<open>m\<close>
  (connection lost), which the services catch.
\<close>

record db =
  users :: "user list"
  logs :: "log list"
  db_error :: "string option"



section \<open>Credential verifier\<close>

text \<open>A service result \<^verbatim>\<open>{ success, message, data? }\<close>.\<close>

record 'a svc_result =
  svc_success :: bool
  svc_message :: string
  svc_data :: "'a option"

definition svc_fail :: "string \<Rightarrow> 'a svc_result" where
  "svc_fail m = \<lparr>svc_success = False, svc_message = m, svc_data = None\<rparr>"

definition svc_ok :: "string \<Rightarrow> 'a option \<Rightarrow> 'a svc_result" where
  "svc_ok m x = \<lparr>svc_success = True, svc_message = m, svc_data = x\<rparr>"






section \<open>Session trail\<close>

text \<open>
  \<^verbatim>\<open>Log.findByIdAndUpdate(logId, { loggedOutAt: new Date() })\<close>: sets the field on the
  document with that \<^verbatim>\<open>_id\<close> when there is one, and resolves to the document found or to
  \<^verbatim>\<open>null\<close>; it does not reject when nothing matches.
\<close>

fun set_loggedOutAt_first :: "string \<Rightarrow> int \<Rightarrow> log list \<Rightarrow> log list" where
  "set_loggedOutAt_first logId now [] = []"
| "set_loggedOutAt_first logId now (l # ls) =
     (if log_id l = logId then l\<lparr>loggedOutAt := Some now\<rparr> # ls
      else l # set_loggedOutAt_first logId now ls)"

definition Log_findByIdAndUpdate :: "db \<Rightarrow> string \<Rightarrow> int \<Rightarrow> string + (log option \<times> db)" where
  "Log_findByIdAndUpdate d logId now =
     (case db_error d of
        Some m \<Rightarrow> Inl m
      | None \<Rightarrow>
          Inr (find (\<lambda>l. log_id l = logId) (logs d),
               d\<lparr>logs := set_loggedOutAt_first logId now (logs d)\<rparr>))"

text \<open>\<^verbatim>\<open>AuthService.updateLogoutTime(logId)\<close>: the result of the update is not looked at.\<close>

definition updateLogoutTime :: "db \<Rightarrow> string \<Rightarrow> int \<Rightarrow> unit svc_result \<times> db" where
  "updateLogoutTime d logId now =
     (case Log_findByIdAndUpdate d logId now of
        Inl m \<Rightarrow> (svc_fail m, d)
      | Inr (found, d') \<Rightarrow> (svc_ok ''Logout time updated'' None, d'))"

text \<open>
  The older path. \<^verbatim>\<open>DB.update("Log", { loggedOutAt: new Date() }, { _id: logId })\<close> runs
  \<^verbatim>\<open>updateMany(where, { $set: data })\<close> and returns \<^verbatim>\<open>modifiedCount\<close>, the number of
  matching documents the update changed; on a store error it returns 0.
\<close>

definition DB_update_Log :: "db \<Rightarrow> string \<Rightarrow> int \<Rightarrow> nat \<times> db" where
  "DB_update_Log d logId now =
     (case db_error d of
        Some m \<Rightarrow> (0, d)
      | None \<Rightarrow>
          (length (filter (\<lambda>l. log_id l = logId \<and> loggedOutAt l \<noteq> Some now) (logs d)),
           d\<lparr>logs := map (\<lambda>l. if log_id l = logId then l\<lparr>loggedOutAt := Some now\<rparr> else l)
                       (logs d)\<rparr>))"

text \<open>\<^verbatim>\<open>LogService.updateLogoutTime(logId)\<close>.\<close>

definition LogService_updateLogoutTime :: "db \<Rightarrow> string \<Rightarrow> int \<Rightarrow> unit svc_result \<times> db" where
  "LogService_updateLogoutTime d logId now =
     (case DB_update_Log d logId now of
        (modifiedCount, d') \<Rightarrow>
          if modifiedCount = 0 then (svc_fail ''Log entry not found'', d')
          else (svc_ok ''Logout time updated successfully'' None, d'))"

section \<open>Profile update\<close>

text \<open>JavaScript truthiness of a JSON value (\<^verbatim>\<open>if (updateData.password)\<close>).\<close>

fun truthy :: "json \<Rightarrow> bool" where
  "truthy JNull = False"
| "truthy (JBool b) = b"
| "truthy (JNum n) = (n \<noteq> 0)"
| "truthy (JStr s) = (s \<noteq> [])"
| "truthy (JArr xs) = True"
| "truthy (JObj kvs) = True"

text \<open>\<^verbatim>\<open>delete obj.key\<close> on a copy of the object.\<close>

definition delete_key :: "string \<Rightarrow> (string \<times> json) list \<Rightarrow> (string \<times> json) list" where
  "delete_key k obj = filter (\<lambda>kv. fst kv \<noteq> k) obj"

text \<open>
  The update validators of the \<^verbatim>\<open>User\<close> schema, run because of
  \<^verbatim>\<open>runValidators: true\<close>: \<^verbatim>\<open>required\<close>, the phone pattern
  \<^verbatim>\<open>/^[6-9][0-9]{9}$/\<close>, the length bounds, and the enums \<^verbatim>\<open>USER_ROLES\<close> and
  \<^verbatim>\<open>USER_STATUS\<close> of the constants module.
\<close>

definition USER_ROLES :: "string list" where
  "USER_ROLES = [''admin'', ''moderator'', ''coordinator'', ''user'']"

definition USER_STATUS :: "string list" where
  "USER_STATUS = [''verified'', ''pending'', ''deleted'']"

definition valid_phone :: "string \<Rightarrow> bool" where
  "valid_phone v =
     (length v = 10 \<and> hd v \<in> set ''6789'' \<and> list_all (\<lambda>c. c \<in> set ''0123456789'') (tl v))"

definition valid_path :: "string \<Rightarrow> string \<Rightarrow> bool" where
  "valid_path path v =
     (if path = ''email'' then v \<noteq> []
      else if path = ''phone'' then valid_phone v
      else if path = ''name'' then 2 \<le> length v \<and> length v \<le> 100
      else if path = ''password'' then 6 \<le> length v
      else if path = ''role'' then v \<in> set USER_ROLES
      else if path = ''status'' then v \<in> set USER_STATUS
      else True)"

text \<open>Writing one schema path of a user document; the schema is strict, so a path it
  does not declare is dropped.\<close>

definition set_path :: "string \<Rightarrow> string \<Rightarrow> user \<Rightarrow> user" where
  "set_path path v u =
     (if path = ''email'' then u\<lparr>user_email := v\<rparr>
      else if path = ''phone'' then u\<lparr>user_phone := v\<rparr>
      else if path = ''name'' then u\<lparr>user_name := v\<rparr>
      else if path = ''password'' then u\<lparr>user_password := v\<rparr>
      else if path = ''role'' then u\<lparr>user_role := v\<rparr>
      else if path = ''status'' then u\<lparr>user_status := v\<rparr>
      else u)"

text \<open>
  The store's reading of an update document, which is MongoDB's and not code of this
  repository: a key that starts with \<^verbatim>\<open>$\<close> is an update operator, and any other
  top-level key \<open>k: v\<close> stands for \<^verbatim>\<open>$set: { k: v }\<close>. The repository writes both forms
  itself: \<^verbatim>\<open>{ status: 'deleted' }\<close> in \<^verbatim>\<open>deleteUser\<close> and \<^verbatim>\<open>{ $set: data }\<close> in
  \<^verbatim>\<open>DB.update\<close>. Only \<^verbatim>\<open>$set\<close> is modelled; an update with another operator is answered
  with an error here. The schema's paths are strings; the model answers a value that is
  not a string with a cast error, and leaves out the setters (\<^verbatim>\<open>trim\<close>, \<^verbatim>\<open>lowercase\<close>).
\<close>

fun assignments :: "(string \<times> json) list \<Rightarrow> string + (string \<times> json) list" where
  "assignments [] = Inr []"
| "assignments ((k, v) # rest) =
     (case assignments rest of
        Inl m \<Rightarrow> Inl m
      | Inr others \<Rightarrow>
          if k = ''$set'' then
            (case v of JObj subdoc \<Rightarrow> Inr (subdoc @ others) | _ \<Rightarrow> Inl ''Cast error'')
          else if take 1 k = ''$'' then Inl ''Unknown modifier''
          else Inr ((k, v) # others))"

definition schema_paths :: "string list" where
  "schema_paths = [''email'', ''phone'', ''name'', ''password'', ''role'', ''status'']"

text \<open>Casting and validating the assignments, before anything is written: the first
  error, if any.\<close>

fun check_assignments :: "(string \<times> json) list \<Rightarrow> string option" where
  "check_assignments [] = None"
| "check_assignments ((path, JStr v) # rest) =
     (if valid_path path v then check_assignments rest else Some ''Validation failed'')"
| "check_assignments ((path, other) # rest) =
     (if path \<in> set schema_paths then Some ''Cast error'' else check_assignments rest)"

fun apply_assignments :: "(string \<times> json) list \<Rightarrow> user \<Rightarrow> user" where
  "apply_assignments [] u = u"
| "apply_assignments ((path, JStr v) # rest) u = apply_assignments rest (set_path path v u)"
| "apply_assignments ((path, other) # rest) u = apply_assignments rest u"

fun replace_first_user :: "string \<Rightarrow> user \<Rightarrow> user list \<Rightarrow> user list" where
  "replace_first_user userId u' [] = []"
| "replace_first_user userId u' (u # us) =
     (if user_id u = userId then u' # us else u # replace_first_user userId u' us)"

text \<open>\<^verbatim>\<open>User.findByIdAndUpdate(userId, updateData, { new: true, runValidators: true })\<close>:
  resolves to the updated document or to \<^verbatim>\<open>null\<close>, or rejects.\<close>

definition User_findByIdAndUpdate ::
  "db \<Rightarrow> string \<Rightarrow> (string \<times> json) list \<Rightarrow> string + (user option \<times> db)" where
  "User_findByIdAndUpdate d userId updateData =
     (case db_error d of
        Some m \<Rightarrow> Inl m
      | None \<Rightarrow>
          (case assignments updateData of
             Inl m \<Rightarrow> Inl m
           | Inr sets \<Rightarrow>
               (case check_assignments sets of
                  Some m \<Rightarrow> Inl m
                | None \<Rightarrow>
                    (case find (\<lambda>u. user_id u = userId) (users d) of
                       None \<Rightarrow> Inr (None, d)
                     | Some u \<Rightarrow>
                         (let u' = apply_assignments sets u
                          in Inr (Some u',
                                  d\<lparr>users := replace_first_user userId u' (users d)\<rparr>))))))"

text \<open>
  \<^verbatim>\<open>UserService.updateUser(userId, updateData)\<close> of \<^verbatim>\<open>user.service.js\<close>. \<open>hash\<close> is
  \<^verbatim>\<open>bcrypt.hash(value, 12)\<close>, the library's: a hash, or an error for a value it refuses.
\<close>

definition hash_password ::
  "(json \<Rightarrow> string + string) \<Rightarrow> (string \<times> json) list \<Rightarrow> string + (string \<times> json) list" where
  "hash_password hash updateData =
     (case map_of updateData ''password'' of
        None \<Rightarrow> Inr updateData
      | Some p \<Rightarrow>
          if truthy p then
            (case hash p of
               Inl m \<Rightarrow> Inl m
             | Inr h \<Rightarrow>
                 Inr (map (\<lambda>kv. if fst kv = ''password'' then (fst kv, JStr h) else kv) updateData))
          else Inr updateData)"

definition updateUser ::
  "db \<Rightarrow> (json \<Rightarrow> string + string) \<Rightarrow> string \<Rightarrow> (string \<times> json) list
     \<Rightarrow> user_response svc_result \<times> db" where
  "updateUser d hash userId updateData =
     (case hash_password hash updateData of
        Inl m \<Rightarrow> (svc_fail m, d)
      | Inr updateData' \<Rightarrow>
          (case User_findByIdAndUpdate d userId updateData' of
             Inl m \<Rightarrow> (svc_fail m, d)
           | Inr (None, d') \<Rightarrow> (svc_fail ''User not found'', d')
           | Inr (Some u, d') \<Rightarrow>
               (svc_ok ''User updated successfully'' (Some (toResponse u)), d')))"

text \<open>
  \<^verbatim>\<open>AuthController.updateProfile(req, res)\<close>. The controller answers through
  \<^verbatim>\<open>errorResponse(res, message, status)\<close> or \<^verbatim>\<open>successResponse(res, data, message)\<close>; the
  reply records which, with its arguments. Reading \<^verbatim>\<open>req.user.id\<close> of a request without
  \<^verbatim>\<open>req.user\<close> throws, which the \<^verbatim>\<open>catch\<close> answers with 500.
\<close>

datatype reply = errorResponse string nat | successResponse "user_response option" string

definition sensitive_removed :: "(string \<times> json) list \<Rightarrow> (string \<times> json) list" where
  "sensitive_removed reqBody =
     delete_key ''status'' (delete_key ''role'' (delete_key ''password'' reqBody))"

definition updateProfile :: "db \<Rightarrow> (json \<Rightarrow> string + string) \<Rightarrow> req \<Rightarrow> reply \<times> db" where
  "updateProfile d hash r =
     (let updateData = sensitive_removed (body r) in
      case user r of
        None \<Rightarrow> (errorResponse ''Failed to update profile'' 500, d)
      | Some u \<Rightarrow>
          (case updateUser d hash (uid u) updateData of
             (result, d') \<Rightarrow>
               if \<not> svc_success result then (errorResponse (svc_message result) 400, d')
               else (successResponse (svc_data result) (svc_message result), d')))"

text \<open>The stored role and status of a user, by id.\<close>

definition stored_role :: "db \<Rightarrow> string \<Rightarrow> string option" where
  "stored_role d userId = map_option user_role (find (\<lambda>u. user_id u = userId) (users d))"

definition stored_status :: "db \<Rightarrow> string \<Rightarrow> string option" where
  "stored_status d userId = map_option user_status (find (\<lambda>u. user_id u = userId) (users d))"

section \<open>Projections used in the statements\<close>

text \<open>The throttle's key for a request: \<^verbatim>\<open>req.user ? req.user.id : req.ip\<close>.\<close>

definition identifier_of :: "req \<Rightarrow> string" where
  "identifier_of r = (case user r of Some u \<Rightarrow> uid u | None \<Rightarrow> ip r)"

text \<open>The timestamps stored under a key: \<^verbatim>\<open>requests.get(identifier) || []\<close>.\<close>

definition entries_of :: "throttle_store \<Rightarrow> string \<Rightarrow> int list" where
  "entries_of requests k = (case requests k of Some xs \<Rightarrow> xs | None \<Rightarrow> [])"

text \<open>The \<^verbatim>\<open>retryAfter\<close> key of an answer, if it answers and has one.\<close>

fun retry_hint :: "outcome \<Rightarrow> int option" where
  "retry_hint (Respond c b) = retryAfter b"
| "retry_hint (Next r) = None"

text \<open>The rejection of the throttle.\<close>

definition too_many :: "int \<Rightarrow> outcome" where
  "too_many windowMs =
     Respond 429 ((failure ''Too many requests. Please try again later.'')
       \<lparr>retryAfter := Some (Math_ceil_div windowMs 1000)\<rparr>)"

section \<open>Sample data\<close>

text \<open>A token library that knows four tokens, for the concrete instances below.\<close>

definition sample_jwt :: jwt_verify where
  "sample_jwt token secret =
     (if token = ''tok.deleted.admin'' \<and> secret = ''k1''
      then Inr \<lparr>uid = ''u9'', email = ''root@quiz.test'', role = ''admin'',
                 status = ''deleted'', iat = 0, exp = 86400\<rparr>
      else if token = ''tok.user'' \<and> secret = ''k1''
      then Inr \<lparr>uid = ''u1'', email = ''asha@quiz.test'', role = ''user'',
                 status = ''verified'', iat = 0, exp = 86400\<rparr>
      else if token = ''tok.expired'' \<and> secret = ''k1'' then Inl TokenExpired
      else if token = ''tok.user'' \<or> token = ''tok.expired'' \<or> token = ''tok.deleted.admin''
      then Inl InvalidSignature
      else Inl JwtMalformed)"

definition bearer :: "string \<Rightarrow> req" where
  "bearer h = \<lparr>authorization = Some h, user = None, params = Map.empty,
     ip = ''203.0.113.7'', body = []\<rparr>"

definition anonymous :: req where
  "anonymous = \<lparr>authorization = None, user = None, params = Map.empty,
     ip = ''203.0.113.7'', body = []\<rparr>"

text \<open>A moderator, and a plain user, each asking for the record of user \<open>u1\<close>.\<close>

definition moderator_on_u1 :: req where
  "moderator_on_u1 =
     \<lparr>authorization = None,
      user = Some \<lparr>uid = ''u2'', email = ''mod@quiz.test'', role = ''moderator'',
                   status = ''verified'', iat = 0, exp = 86400\<rparr>,
      params = [''userId'' \<mapsto> ''u1''], ip = ''203.0.113.7'', body = []\<rparr>"

definition user_on_u1 :: "(string \<times> json) list \<Rightarrow> req" where
  "user_on_u1 b =
     \<lparr>authorization = None,
      user = Some \<lparr>uid = ''u1'', email = ''asha@quiz.test'', role = ''user'',
                   status = ''verified'', iat = 0, exp = 86400\<rparr>,
      params = [''userId'' \<mapsto> ''u1''], ip = ''203.0.113.7'', body = b\<rparr>"

definition asha :: user where
  "asha = \<lparr>user_id = ''u1'', user_email = ''asha@quiz.test'', user_phone = ''9876543210'',
     user_name = ''Asha'', user_role = ''user'', user_status = ''verified'',
     user_password = ''h(letmein)''\<rparr>"

definition gone :: user where
  "gone = \<lparr>user_id = ''u3'', user_email = ''gone@quiz.test'', user_phone = ''9876500000'',
     user_name = ''Gone'', user_role = ''user'', user_status = ''deleted'',
     user_password = ''h(oldpass)''\<rparr>"

definition session1 :: log where
  "session1 = \<lparr>log_id = ''log1'', loginId = ''u1'', log_email = ''asha@quiz.test'',
     loggedInAt = 1000, log_ip = ''203.0.113.7'', os = Some ''Linux'',
     browser = Some ''Firefox'', loggedOutAt = None\<rparr>"

definition sample_db :: db where
  "sample_db = \<lparr>users = [asha, gone], logs = [session1], db_error = None\<rparr>"

text \<open>Only \<^verbatim>\<open>res.status(429).json(...)\<close> throws.\<close>

definition respond_throws :: "fault_point \<Rightarrow> bool" where
  "respond_throws p = (p = AtRespond)"



definition sample_hash :: "json \<Rightarrow> string + string" where
  "sample_hash v = (case v of JStr p \<Rightarrow> Inr (''h('' @ p @ '')'') | _ \<Rightarrow> Inl ''Illegal arguments'')"

section \<open>The gate rejects deleted accounts\<close>

text \<open>
  Claim C1. A request whose token verifies (valid signature, not expired) to a payload
  with status \<^verbatim>\<open>deleted\<close> is answered by \<open>authenticate\<close> with 401 and
  "Account has been deactivated.", without \<^verbatim>\<open>next()\<close>; \<open>optionalAuth\<close> hands the request
  on as it came, \<^verbatim>\<open>req.user\<close> not set. The role of the payload is arbitrary. The token is
  whatever \<open>extractToken\<close> reads from the header, in either format; the library accepts
  no empty token.
\<close>

theorem C1_deleted_rejected_at_gate:
  assumes "extractToken r = Some token" and "token \<noteq> []"
    and "jwt token secret = Inr decoded" and "status decoded = ''deleted''"
  shows "authenticate jwt secret r = Respond 401 (failure ''Account has been deactivated.'')
       \<and> \<not> calls_next (authenticate jwt secret r)
       \<and> optionalAuth jwt secret r = Next r"
  using assms by (simp add: authenticate_def optionalAuth_def verifyToken_def)

text \<open>Claim C1 at a request carrying the token of a deleted administrator.\<close>

theorem C1_deleted_rejected_at_gate_witness:
  "authenticate sample_jwt ''k1'' (bearer ''Bearer tok.deleted.admin'') =
     Respond 401 (failure ''Account has been deactivated.'')
   \<and> \<not> calls_next (authenticate sample_jwt ''k1'' (bearer ''Bearer tok.deleted.admin''))
   \<and> optionalAuth sample_jwt ''k1'' (bearer ''Bearer tok.deleted.admin'') =
     Next (bearer ''Bearer tok.deleted.admin'')
   \<and> user (bearer ''Bearer tok.deleted.admin'') = None"
  using C1_deleted_rejected_at_gate
    [where jwt = sample_jwt and secret = "''k1''" and r = "bearer ''Bearer tok.deleted.admin''"
       and token = "''tok.deleted.admin''"
       and decoded = "\<lparr>uid = ''u9'', email = ''root@quiz.test'', role = ''admin'',
                        status = ''deleted'', iat = 0, exp = 86400\<rparr>"]
  by (simp add: extractToken_def bearer_def sample_jwt_def)

section \<open>Self-or-admin access\<close>

text \<open>
  Claim C2, as stated, fails: \<open>selfOrAdmin\<close> has no floor parameter. A moderator asking
  for another user's record is allowed by the moderator floor, so the specification's
  check with that floor allows, and \<open>selfOrAdmin\<close> answers 403.
\<close>

theorem C2_floor_counterexample:
  "RequireSelfOrRoleFloor_spec ModeratorFloor ''userId'' moderator_on_u1
   \<and> calls_next (RequireRoleFloor ModeratorFloor moderator_on_u1)
   \<and> selfOrAdmin ''userId'' moderator_on_u1 =
       Respond 403 (failure ''Access denied. You can only access your own data.'')"
  by (simp add: RequireSelfOrRoleFloor_spec_def moderator_on_u1_def selfOrAdmin_def
      moderatorAndAbove_def authorize_def)

text \<open>
  Claim C2, amended: \<open>selfOrAdmin\<close> allows exactly when the subject is the target or the
  admin floor (\<open>adminOnly\<close>) allows; a subject is always allowed on its own record,
  whatever its role; an authenticated subject that is not allowed is answered 403.
\<close>

theorem C2_self_or_admin_floor:
  "calls_next (selfOrAdmin p r) = RequireSelfOrRoleFloor_spec AdminFloor p r
   \<and> (user r = Some u \<and> params r p = Some (uid u) \<longrightarrow> selfOrAdmin p r = Next r)
   \<and> (user r = Some u \<and> \<not> calls_next (selfOrAdmin p r) \<longrightarrow>
        selfOrAdmin p r =
          Respond 403 (failure ''Access denied. You can only access your own data.''))"
  by (auto simp add: RequireSelfOrRoleFloor_spec_def selfOrAdmin_def adminOnly_def
      authorize_def Let_def split: option.splits)

text \<open>Claim C2, amended, at a plain user asking for their own record.\<close>

theorem C2_self_or_admin_floor_witness:
  "user (user_on_u1 []) =
     Some \<lparr>uid = ''u1'', email = ''asha@quiz.test'', role = ''user'',
            status = ''verified'', iat = 0, exp = 86400\<rparr>
   \<and> params (user_on_u1 []) ''userId'' = Some ''u1''
   \<and> selfOrAdmin ''userId'' (user_on_u1 []) = Next (user_on_u1 [])"
  using C2_self_or_admin_floor
    [where p = "''userId''" and r = "user_on_u1 []"
       and u = "\<lparr>uid = ''u1'', email = ''asha@quiz.test'', role = ''user'',
                   status = ''verified'', iat = 0, exp = 86400\<rparr>"]
  by (simp add: user_on_u1_def)

section \<open>Token extraction at its edges\<close>

text \<open>
  Claim C10, as stated, fails at the empty header value: it does not start with
  "Bearer ", and \<open>extractToken\<close> returns \<^verbatim>\<open>null\<close> for it, not the value itself.
\<close>

theorem C10_empty_header_counterexample:
  "take 7 [] \<noteq> ''Bearer '' \<and> extractToken (bearer []) = None
   \<and> extractToken (bearer []) \<noteq> Some []"
  by (simp add: extractToken_def bearer_def)

text \<open>
  Claim C10, amended: a non-empty header value that does not start with "Bearer " is
  returned whole as the token; the empty header value yields no token; the header
  "Bearer " yields the empty token, which \<open>authenticate\<close> answers as absent credentials,
  401 "Access denied. No token provided.", whatever the token library.
\<close>

theorem C10_extract_edges:
  "(authHeader \<noteq> [] \<and> take 7 authHeader \<noteq> ''Bearer '' \<longrightarrow>
      extractToken (r\<lparr>authorization := Some authHeader\<rparr>) = Some authHeader)
   \<and> extractToken (r\<lparr>authorization := Some []\<rparr>) = None
   \<and> extractToken (r\<lparr>authorization := Some ''Bearer ''\<rparr>) = Some []
   \<and> authenticate jwt secret (r\<lparr>authorization := Some ''Bearer ''\<rparr>) =
       Respond 401 (failure ''Access denied. No token provided.'')"
  by (simp add: extractToken_def authenticate_def)

text \<open>Claim C10, amended, at the bare token \<^verbatim>\<open>tok.user\<close>.\<close>

theorem C10_extract_edges_witness:
  "''tok.user'' \<noteq> [] \<and> take 7 ''tok.user'' \<noteq> ''Bearer ''
   \<and> extractToken (anonymous\<lparr>authorization := Some ''tok.user''\<rparr>) = Some ''tok.user''"
  using C10_extract_edges [where authHeader = "''tok.user''" and r = anonymous]
  by simp

section \<open>The throttle\<close>

text \<open>The middleware without faults, in one equation: prune, then deny or record.\<close>

lemma rateLimit_no_fault:
  "rateLimit maxRequests windowMs no_fault requests r now =
     (let kept = filter (\<lambda>t. now - windowMs < t) (entries_of requests (identifier_of r))
      in if maxRequests \<le> int (length kept)
         then (too_many windowMs,
               case requests (identifier_of r) of
                 Some xs \<Rightarrow> requests(identifier_of r \<mapsto> kept)
               | None \<Rightarrow> requests)
         else (Next r, requests(identifier_of r \<mapsto> kept @ [now])))"
  by (auto simp add: rateLimit_def rateLimit_try_def no_fault_def too_many_def Let_def
      entries_of_def identifier_of_def split: option.splits)

text \<open>
  Claim C4, as stated, fails. With ceiling 1 and a window of 60000 ms, a client whose
  one counted request was at time 0 is denied at time 30000 with \<^verbatim>\<open>retryAfter: 60\<close>, the
  whole window in seconds; the time until that request leaves the window is
  \<open>60000 - (30000 - 0) = 30000\<close> ms, 30 s, which is what the specification's Admit gives.
\<close>

theorem C4_retry_after_counterexample:
  "retry_hint (fst (rateLimit 1 60000 no_fault [''203.0.113.7'' \<mapsto> [0]] anonymous 30000))
     = Some 60
   \<and> fst (Admit_spec 1 60000 [0] 30000) = Deny (Some 30000)
   \<and> Math_ceil_div 30000 1000 = 30"
  by (simp add: rateLimit_def rateLimit_try_def no_fault_def anonymous_def Math_ceil_div_def
      Admit_spec_def Let_def)

text \<open>
  Claim C4, amended: every denial of the throttle is the 429 answer whose retry-after
  hint is the whole window in seconds, \<^verbatim>\<open>Math.ceil(windowMs / 1000)\<close>, whatever the time
  of the call and the stored timestamps are.
\<close>

theorem C4_retry_after_is_window:
  "\<not> calls_next (fst (rateLimit maxRequests windowMs raises requests r now)) \<Longrightarrow>
     fst (rateLimit maxRequests windowMs raises requests r now) = too_many windowMs
     \<and> retry_hint (fst (rateLimit maxRequests windowMs raises requests r now))
         = Some (Math_ceil_div windowMs 1000)"
  by (auto simp add: rateLimit_def rateLimit_try_def too_many_def Let_def
      split: if_splits option.splits)

text \<open>Claim C4, amended, at the denied call of the counterexample.\<close>

theorem C4_retry_after_is_window_witness:
  "\<not> calls_next (fst (rateLimit 1 60000 no_fault [''203.0.113.7'' \<mapsto> [0]] anonymous 30000))
   \<and> fst (rateLimit 1 60000 no_fault [''203.0.113.7'' \<mapsto> [0]] anonymous 30000)
       = too_many 60000
   \<and> retry_hint (fst (rateLimit 1 60000 no_fault [''203.0.113.7'' \<mapsto> [0]] anonymous 30000))
       = Some 60"
  using C4_retry_after_is_window
    [where maxRequests = 1 and windowMs = 60000 and raises = no_fault
       and requests = "[''203.0.113.7'' \<mapsto> [0]]" and r = anonymous and now = 30000]
  by (simp add: rateLimit_no_fault Let_def entries_of_def identifier_of_def anonymous_def
      too_many_def Math_ceil_div_def)

text \<open>
  Claim C5, as stated, fails at the edge of the window. An entry whose timestamp is
  exactly \<open>now - window\<close> is not older than \<open>now - window\<close>, so the claim keeps and counts
  it; the code keeps only \<^verbatim>\<open>time > windowStart\<close> and drops it. With ceiling 1 and window
  60000, a client with one entry at time 0 calling at time 60000 is denied by the
  algorithm of the claim and admitted by the code.
\<close>

theorem C5_window_edge_counterexample:
  "\<not> (0::int) < 60000 - 60000
   \<and> fst (Admit_spec 1 60000 [0] 60000) = Deny (Some 0)
   \<and> fst (rateLimit 1 60000 no_fault [''203.0.113.7'' \<mapsto> [0]] anonymous 60000)
       = Next anonymous"
  by (simp add: rateLimit_def rateLimit_try_def no_fault_def anonymous_def Math_ceil_div_def
      Admit_spec_def Let_def)

text \<open>
  Claim C5, amended: per subject key, each call keeps of the stored sequence the
  entries strictly newer than \<open>now - window\<close> (an entry exactly that old is dropped with
  the older ones); if the count of the kept entries is at least the ceiling, the call is
  denied and \<open>now\<close> is not appended; otherwise \<open>now\<close> is appended and the call is allowed;
  no other key's sequence changes. With ceiling 3 and a window of 60 s, calls at 0, 1 and
  2 s are admitted, a fourth at 3 s is denied and a fifth at 61 s is admitted.
\<close>

theorem C5_admit_algorithm:
  "rateLimit maxRequests windowMs no_fault requests r now =
     (let kept = filter (\<lambda>t. now - windowMs < t) (entries_of requests (identifier_of r))
      in if maxRequests \<le> int (length kept)
         then (too_many windowMs,
               case requests (identifier_of r) of
                 Some xs \<Rightarrow> requests(identifier_of r \<mapsto> kept)
               | None \<Rightarrow> requests)
         else (Next r, requests(identifier_of r \<mapsto> kept @ [now])))
   \<and> rateLimit_run 3 60000 Map.empty r [0, 1000, 2000, 3000, 61000]
       = [True, True, True, False, True]"
  by (simp add: rateLimit_no_fault Let_def entries_of_def too_many_def)

text \<open>
  Claim C8. When the \<^verbatim>\<open>try\<close> block of the throttle throws, at whichever statement, the
  middleware calls \<^verbatim>\<open>next()\<close> with the request; so a rejection is only ever the 429 of a
  \<^verbatim>\<open>try\<close> block that ran to its end.
\<close>

theorem C8_throttle_fails_open:
  "(rateLimit_try maxRequests windowMs raises requests r now = Thrown requests' \<longrightarrow>
      rateLimit maxRequests windowMs raises requests r now = (Next r, requests'))
   \<and> (\<not> calls_next (fst (rateLimit maxRequests windowMs raises requests r now)) \<longrightarrow>
        rateLimit_try maxRequests windowMs raises requests r now =
          Returned (too_many windowMs)
            (snd (rateLimit maxRequests windowMs raises requests r now)))"
  by (auto simp add: rateLimit_def rateLimit_try_def too_many_def Let_def
      split: attempt.splits if_splits option.splits)

text \<open>
  Claim C8 at a client over the ceiling whose 429 answer cannot be sent: the block
  throws where it answers, and the request is admitted.
\<close>

theorem C8_throttle_fails_open_witness:
  "rateLimit_try 1 60000 respond_throws [''203.0.113.7'' \<mapsto> [0]] anonymous 30000
     = Thrown [''203.0.113.7'' \<mapsto> [0]]
   \<and> rateLimit 1 60000 respond_throws [''203.0.113.7'' \<mapsto> [0]] anonymous 30000
       = (Next anonymous, [''203.0.113.7'' \<mapsto> [0]])"
  using C8_throttle_fails_open
    [where maxRequests = 1 and windowMs = 60000 and raises = respond_throws
       and requests = "[''203.0.113.7'' \<mapsto> [0]]" and r = anonymous and now = 30000
       and requests' = "[''203.0.113.7'' \<mapsto> [0]]"]
  by (simp add: rateLimit_try_def respond_throws_def anonymous_def Let_def)

section \<open>Token verification\<close>

text \<open>
  Claim C6, as stated, fails: \<open>verifyToken\<close> returns \<^verbatim>\<open>null\<close> for every rejection and
  carries no reason. An expired token, a token checked against another secret and a
  malformed token are refused by the library for three different reasons, and the three
  results of \<open>verifyToken\<close> are the same value.
\<close>

theorem C6_no_reason_counterexample:
  "sample_jwt ''tok.expired'' ''k1'' = Inl TokenExpired
   \<and> sample_jwt ''tok.user'' ''k2'' = Inl InvalidSignature
   \<and> sample_jwt ''garbage'' ''k1'' = Inl JwtMalformed
   \<and> verifyToken sample_jwt ''k1'' ''tok.expired'' = None
   \<and> verifyToken sample_jwt ''k2'' ''tok.user'' = None
   \<and> verifyToken sample_jwt ''k1'' ''garbage'' = None"
  by (simp add: sample_jwt_def verifyToken_def)

text \<open>
  Claim C6, amended: a token that the library refuses, for whichever reason (malformed,
  wrong signature, expired), is never accepted: \<open>verifyToken\<close> returns \<^verbatim>\<open>null\<close>, with no
  reason subtype; \<open>authenticate\<close> answers it with 401 "Invalid or expired token." and
  \<open>optionalAuth\<close> hands the request on unauthenticated.
\<close>

theorem C6_rejections_are_null:
  "jwt token secret = Inl reason \<Longrightarrow>
     verifyToken jwt secret token = None
     \<and> (extractToken r = Some token \<and> token \<noteq> [] \<longrightarrow>
          authenticate jwt secret r = Respond 401 (failure ''Invalid or expired token.'')
          \<and> optionalAuth jwt secret r = Next r)"
  by (simp add: verifyToken_def authenticate_def optionalAuth_def)

text \<open>Claim C6, amended, at an expired bearer token.\<close>

theorem C6_rejections_are_null_witness:
  "sample_jwt ''tok.expired'' ''k1'' = Inl TokenExpired
   \<and> extractToken (bearer ''Bearer tok.expired'') = Some ''tok.expired''
   \<and> verifyToken sample_jwt ''k1'' ''tok.expired'' = None
   \<and> authenticate sample_jwt ''k1'' (bearer ''Bearer tok.expired'') =
       Respond 401 (failure ''Invalid or expired token.'')
   \<and> optionalAuth sample_jwt ''k1'' (bearer ''Bearer tok.expired'') =
       Next (bearer ''Bearer tok.expired'')"
  using C6_rejections_are_null
    [where jwt = sample_jwt and token = "''tok.expired''" and secret = "''k1''"
       and reason = TokenExpired and r = "bearer ''Bearer tok.expired''"]
  by (simp add: sample_jwt_def extractToken_def bearer_def)

section \<open>Login does not tell a missing account from a wrong password\<close>





section \<open>Closing a session record\<close>

text \<open>With the store answering, \<open>updateLogoutTime\<close> reports success whatever the id.\<close>

lemma updateLogoutTime_always_ok:
  "db_error d = None \<Longrightarrow>
     fst (updateLogoutTime d logId now) = svc_ok ''Logout time updated'' None"
  by (simp add: updateLogoutTime_def Log_findByIdAndUpdate_def)

text \<open>For an id that has a record, the first record with that id gets
  \<^verbatim>\<open>loggedOutAt\<close> set to the current time and no other record changes.\<close>

lemma set_loggedOutAt_first_present:
  "find (\<lambda>l. log_id l = logId) ls = Some l \<Longrightarrow>
   \<exists>before after. ls = before @ l # after \<and> (\<forall>x\<in>set before. log_id x \<noteq> logId)
     \<and> set_loggedOutAt_first logId now ls = before @ l\<lparr>loggedOutAt := Some now\<rparr> # after"
proof (induction ls)
  case Nil
  then show ?case by simp
next
  case (Cons a ls)
  show ?case
  proof (cases "log_id a = logId")
    case True
    with Cons.prems have "a = l" by simp
    with True show ?thesis by (intro exI[of _ "[]"] exI[of _ ls]) simp
  next
    case False
    with Cons obtain before after where
      "ls = before @ l # after" "\<forall>x\<in>set before. log_id x \<noteq> logId"
      "set_loggedOutAt_first logId now ls = before @ l\<lparr>loggedOutAt := Some now\<rparr> # after"
      by auto
    with False show ?thesis by (intro exI[of _ "a # before"] exI[of _ after]) simp
  qed
qed

lemma set_loggedOutAt_first_absent:
  "find (\<lambda>l. log_id l = logId) ls = None \<Longrightarrow> set_loggedOutAt_first logId now ls = ls"
  by (induction ls) (auto split: if_splits)

text \<open>
  Claim C7 at an id without a record. The store holds the one record \<open>log1\<close>;
  \<open>updateLogoutTime\<close> for \<open>log404\<close> changes nothing and reports success, "Logout time
  updated", where the claim says NotFound. The older \<open>LogService.updateLogoutTime\<close>
  answers the same call with the failure "Log entry not found".
\<close>

theorem C7_missing_record_reports_ok:
  "find (\<lambda>l. log_id l = ''log404'') (logs sample_db) = None
   \<and> updateLogoutTime sample_db ''log404'' 5000
       = (svc_ok ''Logout time updated'' None, sample_db)
   \<and> LogService_updateLogoutTime sample_db ''log404'' 5000
       = (svc_fail ''Log entry not found'', sample_db)"
  by (simp add: updateLogoutTime_def Log_findByIdAndUpdate_def sample_db_def session1_def
      LogService_updateLogoutTime_def DB_update_Log_def)

section \<open>What a profile update can change\<close>

text \<open>The three keys are gone from the update document; every other key of the body
  is passed on as it came.\<close>

lemma sensitive_removed_keys:
  "k \<in> {''password'', ''role'', ''status''} \<Longrightarrow> k \<notin> fst ` set (sensitive_removed b)"
  by (auto simp add: sensitive_removed_def delete_key_def)

lemma sensitive_removed_others:
  "k \<notin> {''password'', ''role'', ''status''} \<Longrightarrow> map_of (sensitive_removed b) k = map_of b k"
  by (induction b) (auto simp add: sensitive_removed_def delete_key_def)

lemma sensitive_removed_subset: "fst ` set (sensitive_removed b) \<subseteq> fst ` set b"
  by (auto simp add: sensitive_removed_def delete_key_def)

lemma hash_password_removed:
  "hash_password hash (sensitive_removed b) = Inr (sensitive_removed b)"
proof -
  have "''password'' \<notin> fst ` set (sensitive_removed b)"
    by (rule sensitive_removed_keys) simp
  then have "map_of (sensitive_removed b) ''password'' = None"
    by (simp add: map_of_eq_None_iff)
  then show ?thesis by (simp add: hash_password_def)
qed

lemma assignments_plain:
  "\<forall>k\<in>fst ` set upd. take 1 k \<noteq> ''$'' \<Longrightarrow> assignments upd = Inr upd"
  by (induction upd) auto

lemma apply_assignments_id: "user_id (apply_assignments sets u) = user_id u"
  by (induction sets u rule: apply_assignments.induct) (auto simp add: set_path_def)

lemma apply_assignments_role:
  "''role'' \<notin> fst ` set sets \<Longrightarrow> user_role (apply_assignments sets u) = user_role u"
  by (induction sets u rule: apply_assignments.induct) (auto simp add: set_path_def)

lemma apply_assignments_status:
  "''status'' \<notin> fst ` set sets \<Longrightarrow> user_status (apply_assignments sets u) = user_status u"
  by (induction sets u rule: apply_assignments.induct) (auto simp add: set_path_def)

lemma stored_after_replace:
  "find (\<lambda>u. user_id u = userId) us = Some u0 \<Longrightarrow> user_id u' = user_id u0 \<Longrightarrow>
   f u' = f u0 \<Longrightarrow>
   map_option f (find (\<lambda>u. user_id u = x) (replace_first_user userId u' us))
     = map_option f (find (\<lambda>u. user_id u = x) us)"
  by (induction us) (auto split: if_splits)

lemma findByIdAndUpdate_frame:
  assumes "User_findByIdAndUpdate d userId upd = Inr (res, d')"
    and "assignments upd = Inr sets"
    and "''role'' \<notin> fst ` set sets" and "''status'' \<notin> fst ` set sets"
  shows "stored_role d' x = stored_role d x \<and> stored_status d' x = stored_status d x"
  using assms
  by (auto simp add: User_findByIdAndUpdate_def stored_role_def stored_status_def Let_def
      stored_after_replace apply_assignments_id apply_assignments_role
      apply_assignments_status split: option.splits)

text \<open>
  For a body none of whose keys is an update operator the frame property holds: the
  stored role and status of every user are as before.
\<close>

lemma updateProfile_frame_plain:
  assumes "\<forall>k\<in>fst ` set (body r). take 1 k \<noteq> ''$''"
  shows "stored_role (snd (updateProfile d hash r)) x = stored_role d x
       \<and> stored_status (snd (updateProfile d hash r)) x = stored_status d x"
proof (cases "user r")
  case None
  then show ?thesis by (simp add: updateProfile_def)
next
  case (Some u)
  let ?upd = "sensitive_removed (body r)"
  have plain: "assignments ?upd = Inr ?upd"
    using assms sensitive_removed_subset[of "body r"] by (intro assignments_plain) blast
  have nr: "''role'' \<notin> fst ` set ?upd" and ns: "''status'' \<notin> fst ` set ?upd"
    by (rule sensitive_removed_keys, simp)+
  show ?thesis
  proof (cases "User_findByIdAndUpdate d (uid u) ?upd")
    case (Inl m)
    with Some show ?thesis
      by (simp add: updateProfile_def updateUser_def hash_password_removed svc_fail_def)
  next
    case (Inr p)
    obtain res d' where p: "p = (res, d')" by (cases p)
    from findByIdAndUpdate_frame[OF Inr[unfolded p] plain nr ns]
    have "stored_role d' x = stored_role d x \<and> stored_status d' x = stored_status d x" .
    with Some Inr p show ?thesis
      by (cases res)
        (simp_all add: updateProfile_def updateUser_def hash_password_removed svc_fail_def
          svc_ok_def)
  qed
qed

text \<open>
  Claim C9 at a body that names the role inside an update operator. The user \<open>u1\<close>
  has the role \<^verbatim>\<open>user\<close>. The body \<^verbatim>\<open>{ "$set": { "role": "admin" } }\<close> has none of the three
  deleted keys at its top level, so it reaches \<^verbatim>\<open>User.findByIdAndUpdate\<close> whole, and the
  stored role of \<open>u1\<close> is \<^verbatim>\<open>admin\<close> afterwards, where the claim says it is unchanged
  whatever the body contains.
\<close>

theorem C9_operator_body_changes_role:
  "stored_role sample_db ''u1'' = Some ''user''
   \<and> sensitive_removed [(''$set'', JObj [(''role'', JStr ''admin'')])]
       = [(''$set'', JObj [(''role'', JStr ''admin'')])]
   \<and> stored_role
        (snd (updateProfile sample_db sample_hash
               (user_on_u1 [(''$set'', JObj [(''role'', JStr ''admin'')])])))
        ''u1''
       = Some ''admin''"
  by (simp add: stored_role_def sample_db_def asha_def gone_def updateProfile_def
      user_on_u1_def sensitive_removed_def delete_key_def updateUser_def hash_password_def
      User_findByIdAndUpdate_def valid_path_def USER_ROLES_def set_path_def svc_ok_def
      svc_fail_def toResponse_def Let_def)

end
